theory Spec2Isabelle
  imports Main
begin

section \<open>The syntax tree walked by the pass\<close>

text \<open>
  The pass of \<^verbatim>\<open>xonsh/ast.py\<close> walks trees of Python's \<^verbatim>\<open>ast\<close> module. The node classes
  it imports are embedded as datatypes that follow the abstract grammar of that module:
  expressions, statements (each with its \<^verbatim>\<open>lineno\<close> and \<^verbatim>\<open>col_offset\<close>), exception
  handlers and the module. Fields the pass never reads (expression contexts, positions
  of expressions, the details of slices and of parameter lists) are kept only as far as
  the shape of the tree needs them. Expression classes without a case of their own in
  the source are collected under \<open>OtherExpr\<close> with their class name and children.
\<close>

type_synonym py_ident = string

datatype operator = Add | Sub | Mult | Div | FloorDiv | Mod | Pow
  | LShift | RShift | BitOr | BitXor | BitAnd

datatype cmpop = Eq | NotEq | Lt | LtE | Gt | GtE | Is | IsNot | In | NotIn

datatype unaryop = Invert | NotOp | UAdd | USub

datatype expr =
    Name py_ident
  | BinOp expr operator expr
  | Compare expr "cmpop list" "expr list"
  | Attribute expr py_ident
  | Subscript expr expr
  | Starred expr
  | Call expr "expr list" "(py_ident \<times> expr) list"
  | Tuple "expr list"
  | List "expr list"
  | Num int
  | Str string
  | UnaryOp unaryop expr
  | OtherExpr string "expr list"

datatype import_alias = Alias (name: py_ident) (asname: "py_ident option")

datatype withitem = Withitem (context_expr: expr) (optional_vars: "expr option")

datatype arguments = Arguments (args: "py_ident list") (defaults: "expr list")

datatype stmt = Stmt (lineno: int) (col_offset: int) (desc: stmt_desc)
and stmt_desc =
    Expr expr
  | Assign "expr list" expr
  | AugAssign expr operator expr
  | Import "import_alias list"
  | ImportFrom "py_ident option" "import_alias list" int
  | With "withitem list" "stmt list"
  | For expr expr "stmt list" "stmt list"
  | FunctionDef py_ident arguments "stmt list" "expr list" "expr option"
  | ClassDef py_ident "expr list" "stmt list" "expr list"
  | Delete "expr list"
  | Try "stmt list" "excepthandler list" "stmt list" "stmt list"
  | Global "py_ident list"
  | Nonlocal "py_ident list"
  | IfStmt expr "stmt list" "stmt list"
  | While expr "stmt list" "stmt list"
  | Return "expr option"
  | Raise "expr option" "expr option"
  | Assert expr "expr option"
  | Pass
  | Break
  | Continue
and excepthandler =
    ExceptHandler (handler_type: "expr option") (handler_name: "py_ident option")
      (handler_body: "stmt list")

datatype py_module = Module (body: "stmt list")

text \<open>
  Python passes any node to \<^verbatim>\<open>leftmostname\<close>: the pass calls it on expressions
  (assignment targets) and on expression statements. \<open>node\<close> is that union.
\<close>

datatype node = ExprNode expr | StmtNode stmt | HandlerNode excepthandler | ModNode py_module

section \<open>The leftmost name of a node\<close>

text \<open>
  \<^verbatim>\<open>leftmostname\<close> (lines 16 to 28): a chain of \<^verbatim>\<open>isinstance\<close> tests, in the source's
  order; \<^verbatim>\<open>None\<close> is the result \<open>None\<close>.
\<close>

function (sequential) leftmostname :: "node \<Rightarrow> py_ident option" where
  "leftmostname (ExprNode (Name nm)) = Some nm"
| "leftmostname (ExprNode (BinOp left opr right)) = leftmostname (ExprNode left)"
| "leftmostname (ExprNode (Compare left ops comparators)) = leftmostname (ExprNode left)"
| "leftmostname (ExprNode (Attribute v attr)) = leftmostname (ExprNode v)"
| "leftmostname (ExprNode (Subscript v slice)) = leftmostname (ExprNode v)"
| "leftmostname (ExprNode (Starred v)) = leftmostname (ExprNode v)"
| "leftmostname (StmtNode (Stmt l c (Expr v))) = leftmostname (ExprNode v)"
| "leftmostname (ExprNode (Call func cargs keywords)) = leftmostname (ExprNode func)"
| "leftmostname _ = None"
  by pat_completeness auto

termination leftmostname
  by (relation "measure (\<lambda>n. case n of ExprNode e \<Rightarrow> size e
        | StmtNode (Stmt l c (Expr v)) \<Rightarrow> Suc (size v) | _ \<Rightarrow> 0)") auto

section \<open>Exceptions, lists and strings of the host language\<close>

text \<open>
  Every \<^verbatim>\<open>raise\<close> is a value: a computation returns \<open>Inl\<close> of the exception or
  \<open>Inr\<close> of its result. \<open>OtherError\<close> stands for any exception class the pass does
  not name (a collaborator may raise it).
\<close>

datatype exn = SyntaxError | TypeError | IndexError | OtherError string

text \<open>
  \<^verbatim>\<open>xs[i]\<close> on a Python list: a negative index counts from the end, an index out of
  range raises \<^verbatim>\<open>IndexError\<close>.
\<close>

definition getitem :: "'a list \<Rightarrow> int \<Rightarrow> exn + 'a" where
  "getitem xs i =
     (if 0 \<le> i \<and> i < int (length xs) then Inr (xs ! nat i)
      else if - int (length xs) \<le> i \<and> i < 0 then Inr (xs ! nat (int (length xs) + i))
      else Inl IndexError)"

text \<open>
  \<^verbatim>\<open>str.splitlines()\<close>: the text is cut at every line boundary, the boundary is dropped,
  a carriage return followed by a line feed is one boundary, and a boundary at the very
  end opens no further line. Characters are the code points below 256, so the
  boundaries are LF, VT, FF, CR, FS, GS, RS and NEL.
\<close>

definition is_linebreak :: "char \<Rightarrow> bool" where
  "is_linebreak ch \<longleftrightarrow>
     ch \<in> set [CHR 0x0A, CHR 0x0B, CHR 0x0C, CHR 0x0D, CHR 0x1C, CHR 0x1D, CHR 0x1E, CHR 0x85]"

fun splitlines_from :: "string \<Rightarrow> string \<Rightarrow> string list" where
  "splitlines_from cur [] = (if cur = [] then [] else [rev cur])"
| "splitlines_from cur [ch] = (if is_linebreak ch then [rev cur] else [rev (ch # cur)])"
| "splitlines_from cur (ch # nxt # rest) =
     (if ch = CHR 0x0D \<and> nxt = CHR 0x0A then rev cur # splitlines_from [] rest
      else if is_linebreak ch then rev cur # splitlines_from [] (nxt # rest)
      else splitlines_from (ch # cur) (nxt # rest))"

definition splitlines :: "string \<Rightarrow> string list" where
  "splitlines input = splitlines_from [] input"

text \<open>A \<^verbatim>\<open>for\<close> loop whose body may raise: the first exception ends the loop.\<close>

fun for_each :: "('a \<Rightarrow> 's \<Rightarrow> exn + 's) \<Rightarrow> 'a list \<Rightarrow> 's \<Rightarrow> exn + 's" where
  "for_each f [] s = Inr s"
| "for_each f (x # xs) s = (case f x s of Inl e \<Rightarrow> Inl e | Inr s' \<Rightarrow> for_each f xs s')"

text \<open>
  \<^verbatim>\<open>try: ... except SyntaxError: ...\<close>: only a syntax error is caught and replaced by
  the handler's value; every other exception passes through.
\<close>

definition except_SyntaxError :: "exn + 'a \<Rightarrow> 'a \<Rightarrow> exn + 'a" where
  "except_SyntaxError attempt handler =
     (case attempt of
        Inl err \<Rightarrow> (if err = SyntaxError then Inr handler else Inl err)
      | Inr v \<Rightarrow> Inr v)"

section \<open>The transformer and its scope stack\<close>

text \<open>
  The two collaborators are not part of this file of the repository and are parameters
  of the model: \<^verbatim>\<open>subproc_line\<close> of \<^verbatim>\<open>xonsh.tools\<close>, a function on lines, and the
  parser handed to the constructor, whose \<^verbatim>\<open>parse\<close> returns a module or raises.
\<close>

type_synonym line_conv = "string \<Rightarrow> string"
type_synonym parser = "string \<Rightarrow> exn + py_module"

text \<open>
  The fields \<^verbatim>\<open>self.lines\<close> and \<^verbatim>\<open>self.contexts\<close> that \<^verbatim>\<open>ctxvisit\<close> sets up. A frame
  is the set of identifiers bound in it; the root frame is the caller's dictionary,
  of which the pass only ever tests key membership, so it enters as its key set.
\<close>

record transformer =
  lines :: "string list"
  contexts :: "py_ident set list"

text \<open>
  \<^verbatim>\<open>lname in ctx\<close>: frames hold identifiers, so \<^verbatim>\<open>None\<close> is a member of none of them.
\<close>

definition member_of :: "py_ident option \<Rightarrow> py_ident set \<Rightarrow> bool" where
  "member_of lname ctx = (case lname of None \<Rightarrow> False | Some ident \<Rightarrow> ident \<in> ctx)"

text \<open>
  \<^verbatim>\<open>ctxupdate\<close>, \<^verbatim>\<open>ctxadd\<close> and \<^verbatim>\<open>ctxremove\<close> (lines 71 to 81) are declared in the class
  body with one parameter each and no \<^verbatim>\<open>self\<close>:
  \<^verbatim>\<open>def ctxadd(value): self.contexts[-1].add(value)\<close>.
  Every use in the class is a method call \<^verbatim>\<open>self.ctxadd(x)\<close>, which passes the
  instance and \<open>x\<close>: two positional arguments for a function of one parameter. Python
  raises \<^verbatim>\<open>TypeError\<close> at the call, before the body runs, so that is what each of the
  three returns.
\<close>

definition ctxupdate :: "transformer \<Rightarrow> py_ident option list \<Rightarrow> exn + transformer" where
  "ctxupdate self iterable = Inl TypeError"

definition ctxadd :: "transformer \<Rightarrow> py_ident option \<Rightarrow> exn + transformer" where
  "ctxadd self v = Inl TypeError"

definition ctxremove :: "transformer \<Rightarrow> py_ident \<Rightarrow> exn + transformer" where
  "ctxremove self v = Inl TypeError"

text \<open>
  The search of \<^verbatim>\<open>visit_Expr\<close> (lines 85 to 89) over \<^verbatim>\<open>self.contexts[::-1]\<close>, leaving
  the loop at the first frame that holds the name.
\<close>

fun inscope_loop :: "py_ident option \<Rightarrow> py_ident set list \<Rightarrow> bool" where
  "inscope_loop lname [] = False"
| "inscope_loop lname (ctx # rest) =
     (if member_of lname ctx then True else inscope_loop lname rest)"

text \<open>\<^verbatim>\<open>visit_Expr\<close> (lines 83 to 100).\<close>

definition visit_Expr :: "line_conv \<Rightarrow> parser \<Rightarrow> stmt \<Rightarrow> transformer \<Rightarrow> exn + stmt \<times> transformer" where
  "visit_Expr subproc_line parse node self =
     (let lname = leftmostname (StmtNode node);
          inscope = inscope_loop lname (rev (contexts self))
      in if inscope then Inr (node, self)
         else
           (case getitem (lines self) (lineno node - 1) of
              Inl e \<Rightarrow> Inl e
            | Inr line \<Rightarrow>
                (let spline = subproc_line line in
                 case except_SyntaxError
                        (case parse spline of
                           Inl e \<Rightarrow> Inl e
                         | Inr newtree \<Rightarrow>
                             (case getitem (body newtree) 0 of
                                Inl e \<Rightarrow> Inl e
                              | Inr newnode \<Rightarrow>
                                  Inr (Stmt (lineno node) (col_offset node) (desc newnode))))
                        node of
                   Inl e \<Rightarrow> Inl e
                 | Inr newnode \<Rightarrow> Inr (newnode, self))))"

text \<open>
  The bodies of the binding loops. \<open>bind_target\<close> is the test on a target that
  \<^verbatim>\<open>visit_Assign\<close> (lines 104 to 107) and \<^verbatim>\<open>visit_For\<close> (lines 135 to 138) both make;
  \<open>bind_alias\<close> is the loop body of \<^verbatim>\<open>visit_Import\<close> and \<^verbatim>\<open>visit_ImportFrom\<close>,
  \<open>bind_withitem\<close> that of \<^verbatim>\<open>visit_With\<close>, \<open>unbind_target\<close> that of \<^verbatim>\<open>visit_Delete\<close>
  and \<open>bind_handler\<close> that of \<^verbatim>\<open>visit_Try\<close>.
\<close>

definition bind_target :: "expr \<Rightarrow> transformer \<Rightarrow> exn + transformer" where
  "bind_target targ self =
     (case targ of
        Tuple elts \<Rightarrow> ctxupdate self (map (\<lambda>e. leftmostname (ExprNode e)) elts)
      | List elts \<Rightarrow> ctxupdate self (map (\<lambda>e. leftmostname (ExprNode e)) elts)
      | _ \<Rightarrow> ctxadd self (leftmostname (ExprNode targ)))"

definition bind_alias :: "import_alias \<Rightarrow> transformer \<Rightarrow> exn + transformer" where
  "bind_alias a self =
     (case asname a of
        None \<Rightarrow> ctxadd self (Some (name a))
      | Some asn \<Rightarrow> ctxadd self (Some asn))"

definition bind_withitem :: "withitem \<Rightarrow> transformer \<Rightarrow> exn + transformer" where
  "bind_withitem item self =
     (case optional_vars item of
        None \<Rightarrow> Inr self
      | Some v \<Rightarrow> ctxadd self (leftmostname (ExprNode v)))"

definition unbind_target :: "expr \<Rightarrow> transformer \<Rightarrow> exn + transformer" where
  "unbind_target targ self =
     (case targ of
        Name ident \<Rightarrow> ctxremove self ident
      | _ \<Rightarrow> Inr self)"

definition bind_handler :: "excepthandler \<Rightarrow> transformer \<Rightarrow> exn + transformer" where
  "bind_handler handler self =
     (case handler_name handler of
        None \<Rightarrow> Inr self
      | Some ident \<Rightarrow> ctxadd self (Some ident))"

text \<open>
  \<^verbatim>\<open>self.contexts[1].update(node.names)\<close> of \<^verbatim>\<open>visit_Global\<close> (line 171), and the
  \<^verbatim>\<open>append\<close> and \<^verbatim>\<open>pop\<close> around a function or class body.
\<close>

definition global_update :: "py_ident list \<Rightarrow> transformer \<Rightarrow> exn + transformer" where
  "global_update names self =
     (case getitem (contexts self) 1 of
        Inl e \<Rightarrow> Inl e
      | Inr frame \<Rightarrow> Inr (self\<lparr>contexts := (contexts self)[1 := frame \<union> set names]\<rparr>))"

definition push_frame :: "transformer \<Rightarrow> transformer" where
  "push_frame self = self\<lparr>contexts := contexts self @ [{}]\<rparr>"

definition pop_frame :: "transformer \<Rightarrow> exn + transformer" where
  "pop_frame self =
     (if contexts self = [] then Inl IndexError
      else Inr (self\<lparr>contexts := butlast (contexts self)\<rparr>))"

section \<open>The walk\<close>

text \<open>
  \<^verbatim>\<open>NodeTransformer.visit\<close> calls the method \<^verbatim>\<open>visit_\<close>\<open>C\<close> for a node of class \<open>C\<close>
  when the transformer has one and \<^verbatim>\<open>generic_visit\<close> otherwise.
  \<^verbatim>\<open>generic_visit\<close> visits the child nodes field by field, in the order of the class's
  fields, and puts the results back. No method of the transformer is for an expression
  class and no expression has a statement below it, so the visit of an expression
  field returns it as it is and leaves the transformer alone; the model walks the
  fields that hold statements: \<open>visit_stmts\<close> a list of statements and
  \<open>visit_handlers\<close> the handlers of a \<^verbatim>\<open>try\<close>, each an \<^verbatim>\<open>ExceptHandler\<close> that is
  visited generically. The equations of \<open>visit\<close> are the methods of lines 83 to 173.
\<close>

fun visit :: "line_conv \<Rightarrow> parser \<Rightarrow> stmt \<Rightarrow> transformer \<Rightarrow> exn + stmt \<times> transformer"
and generic_visit :: "line_conv \<Rightarrow> parser \<Rightarrow> stmt \<Rightarrow> transformer \<Rightarrow> exn + stmt \<times> transformer"
and visit_stmts :: "line_conv \<Rightarrow> parser \<Rightarrow> stmt list \<Rightarrow> transformer \<Rightarrow> exn + stmt list \<times> transformer"
and visit_handlers :: "line_conv \<Rightarrow> parser \<Rightarrow> excepthandler list \<Rightarrow> transformer
      \<Rightarrow> exn + excepthandler list \<times> transformer"
where
  "visit sl p (Stmt l c (Expr v)) self = visit_Expr sl p (Stmt l c (Expr v)) self"
| "visit sl p (Stmt l c (Assign targets v)) self =
     (case for_each bind_target targets self of
        Inl e \<Rightarrow> Inl e
      | Inr self1 \<Rightarrow> Inr (Stmt l c (Assign targets v), self1))"
| "visit sl p (Stmt l c (Import names)) self =
     (case for_each bind_alias names self of
        Inl e \<Rightarrow> Inl e
      | Inr self1 \<Rightarrow> Inr (Stmt l c (Import names), self1))"
| "visit sl p (Stmt l c (ImportFrom modname names level)) self =
     (case for_each bind_alias names self of
        Inl e \<Rightarrow> Inl e
      | Inr self1 \<Rightarrow> Inr (Stmt l c (ImportFrom modname names level), self1))"
| "visit sl p (Stmt l c (With items bdy)) self =
     (case for_each bind_withitem items self of
        Inl e \<Rightarrow> Inl e
      | Inr self1 \<Rightarrow> generic_visit sl p (Stmt l c (With items bdy)) self1)"
| "visit sl p (Stmt l c (For targ iter bdy orelse)) self =
     (case bind_target targ self of
        Inl e \<Rightarrow> Inl e
      | Inr self1 \<Rightarrow> generic_visit sl p (Stmt l c (For targ iter bdy orelse)) self1)"
| "visit sl p (Stmt l c (FunctionDef fname params bdy decorators returns)) self =
     (case ctxadd self (Some fname) of
        Inl e \<Rightarrow> Inl e
      | Inr self1 \<Rightarrow>
          (case generic_visit sl p (Stmt l c (FunctionDef fname params bdy decorators returns))
                  (push_frame self1) of
             Inl e \<Rightarrow> Inl e
           | Inr (node', self2) \<Rightarrow>
               (case pop_frame self2 of
                  Inl e \<Rightarrow> Inl e
                | Inr self3 \<Rightarrow> Inr (node', self3))))"
| "visit sl p (Stmt l c (ClassDef cname bases bdy decorators)) self =
     (case ctxadd self (Some cname) of
        Inl e \<Rightarrow> Inl e
      | Inr self1 \<Rightarrow>
          (case generic_visit sl p (Stmt l c (ClassDef cname bases bdy decorators))
                  (push_frame self1) of
             Inl e \<Rightarrow> Inl e
           | Inr (node', self2) \<Rightarrow>
               (case pop_frame self2 of
                  Inl e \<Rightarrow> Inl e
                | Inr self3 \<Rightarrow> Inr (node', self3))))"
| "visit sl p (Stmt l c (Delete targets)) self =
     (case for_each unbind_target targets self of
        Inl e \<Rightarrow> Inl e
      | Inr self1 \<Rightarrow> generic_visit sl p (Stmt l c (Delete targets)) self1)"
| "visit sl p (Stmt l c (Try bdy handlers orelse finalbody)) self =
     (case for_each bind_handler handlers self of
        Inl e \<Rightarrow> Inl e
      | Inr self1 \<Rightarrow> generic_visit sl p (Stmt l c (Try bdy handlers orelse finalbody)) self1)"
| "visit sl p (Stmt l c (Global names)) self =
     (case global_update names self of
        Inl e \<Rightarrow> Inl e
      | Inr self1 \<Rightarrow> generic_visit sl p (Stmt l c (Global names)) self1)"
| "visit sl p (Stmt l c (AugAssign targ opr v)) self =
     generic_visit sl p (Stmt l c (AugAssign targ opr v)) self"
| "visit sl p (Stmt l c (Nonlocal names)) self = generic_visit sl p (Stmt l c (Nonlocal names)) self"
| "visit sl p (Stmt l c (IfStmt test bdy orelse)) self =
     generic_visit sl p (Stmt l c (IfStmt test bdy orelse)) self"
| "visit sl p (Stmt l c (While test bdy orelse)) self =
     generic_visit sl p (Stmt l c (While test bdy orelse)) self"
| "visit sl p (Stmt l c (Return v)) self = generic_visit sl p (Stmt l c (Return v)) self"
| "visit sl p (Stmt l c (Raise exc cause)) self = generic_visit sl p (Stmt l c (Raise exc cause)) self"
| "visit sl p (Stmt l c (Assert test msg)) self = generic_visit sl p (Stmt l c (Assert test msg)) self"
| "visit sl p (Stmt l c Pass) self = generic_visit sl p (Stmt l c Pass) self"
| "visit sl p (Stmt l c Break) self = generic_visit sl p (Stmt l c Break) self"
| "visit sl p (Stmt l c Continue) self = generic_visit sl p (Stmt l c Continue) self"
| "generic_visit sl p (Stmt l c (With items bdy)) self =
     (case visit_stmts sl p bdy self of
        Inl e \<Rightarrow> Inl e
      | Inr (bdy', self1) \<Rightarrow> Inr (Stmt l c (With items bdy'), self1))"
| "generic_visit sl p (Stmt l c (For targ iter bdy orelse)) self =
     (case visit_stmts sl p bdy self of
        Inl e \<Rightarrow> Inl e
      | Inr (bdy', self1) \<Rightarrow>
          (case visit_stmts sl p orelse self1 of
             Inl e \<Rightarrow> Inl e
           | Inr (orelse', self2) \<Rightarrow> Inr (Stmt l c (For targ iter bdy' orelse'), self2)))"
| "generic_visit sl p (Stmt l c (FunctionDef fname params bdy decorators returns)) self =
     (case visit_stmts sl p bdy self of
        Inl e \<Rightarrow> Inl e
      | Inr (bdy', self1) \<Rightarrow>
          Inr (Stmt l c (FunctionDef fname params bdy' decorators returns), self1))"
| "generic_visit sl p (Stmt l c (ClassDef cname bases bdy decorators)) self =
     (case visit_stmts sl p bdy self of
        Inl e \<Rightarrow> Inl e
      | Inr (bdy', self1) \<Rightarrow> Inr (Stmt l c (ClassDef cname bases bdy' decorators), self1))"
| "generic_visit sl p (Stmt l c (Try bdy handlers orelse finalbody)) self =
     (case visit_stmts sl p bdy self of
        Inl e \<Rightarrow> Inl e
      | Inr (bdy', self1) \<Rightarrow>
          (case visit_handlers sl p handlers self1 of
             Inl e \<Rightarrow> Inl e
           | Inr (handlers', self2) \<Rightarrow>
               (case visit_stmts sl p orelse self2 of
                  Inl e \<Rightarrow> Inl e
                | Inr (orelse', self3) \<Rightarrow>
                    (case visit_stmts sl p finalbody self3 of
                       Inl e \<Rightarrow> Inl e
                     | Inr (finalbody', self4) \<Rightarrow>
                         Inr (Stmt l c (Try bdy' handlers' orelse' finalbody'), self4)))))"
| "generic_visit sl p (Stmt l c (IfStmt test bdy orelse)) self =
     (case visit_stmts sl p bdy self of
        Inl e \<Rightarrow> Inl e
      | Inr (bdy', self1) \<Rightarrow>
          (case visit_stmts sl p orelse self1 of
             Inl e \<Rightarrow> Inl e
           | Inr (orelse', self2) \<Rightarrow> Inr (Stmt l c (IfStmt test bdy' orelse'), self2)))"
| "generic_visit sl p (Stmt l c (While test bdy orelse)) self =
     (case visit_stmts sl p bdy self of
        Inl e \<Rightarrow> Inl e
      | Inr (bdy', self1) \<Rightarrow>
          (case visit_stmts sl p orelse self1 of
             Inl e \<Rightarrow> Inl e
           | Inr (orelse', self2) \<Rightarrow> Inr (Stmt l c (While test bdy' orelse'), self2)))"
| "generic_visit sl p node self = Inr (node, self)"
| "visit_stmts sl p [] self = Inr ([], self)"
| "visit_stmts sl p (node # rest) self =
     (case visit sl p node self of
        Inl e \<Rightarrow> Inl e
      | Inr (node', self1) \<Rightarrow>
          (case visit_stmts sl p rest self1 of
             Inl e \<Rightarrow> Inl e
           | Inr (rest', self2) \<Rightarrow> Inr (node' # rest', self2)))"
| "visit_handlers sl p [] self = Inr ([], self)"
| "visit_handlers sl p (ExceptHandler htype hname hbody # rest) self =
     (case visit_stmts sl p hbody self of
        Inl e \<Rightarrow> Inl e
      | Inr (hbody', self1) \<Rightarrow>
          (case visit_handlers sl p rest self1 of
             Inl e \<Rightarrow> Inl e
           | Inr (rest', self2) \<Rightarrow> Inr (ExceptHandler htype hname hbody' # rest', self2)))"

text \<open>
  \<^verbatim>\<open>ctxvisit\<close> (lines 48 to 69). The tree is the module the parser produced; \<^verbatim>\<open>Module\<close>
  has no method of its own, so its body is visited generically. The root context is a
  dictionary, entering the stack as its key set.
\<close>

definition ctxvisit :: "line_conv \<Rightarrow> parser \<Rightarrow> py_module \<Rightarrow> string \<Rightarrow> (py_ident \<rightharpoonup> 'v)
    \<Rightarrow> exn + py_module" where
  "ctxvisit sl p node input ctx =
     (let self = \<lparr>lines = splitlines input, contexts = [dom ctx, {}]\<rparr> in
      case visit_stmts sl p (body node) self of
        Inl e \<Rightarrow> Inl e
      | Inr (body', self1) \<Rightarrow> Inr (Module body'))"

section \<open>The contract of the parser, and collaborators for examples\<close>

text \<open>
  The source takes the first statement of the parse with the comment
  \<^verbatim>\<open>take the first (and only) Expr\<close>: whenever the parser returns a module whose body is
  not empty, its first statement is an expression statement.
\<close>

definition first_is_Expr :: "parser \<Rightarrow> bool" where
  "first_is_Expr parse \<longleftrightarrow>
     (\<forall>src first rest. parse src = Inr (Module (first # rest)) \<longrightarrow> (\<exists>v. desc first = Expr v))"

text \<open>
  A concrete pair of collaborators, to run the walk on examples. The line converter
  wraps the line in \<^verbatim>\<open>$[\<close> and \<^verbatim>\<open>]\<close>; the parser accepts such a line when it holds no
  opening parenthesis and returns a one-statement module, a call of the subprocess
  function on the text, placed at line 1, column 0; it rejects every other line with
  a syntax error. The theorems below hold for every pair of collaborators.
\<close>

definition sample_subproc_line :: line_conv where
  "sample_subproc_line line = ''$['' @ line @ '']''"

definition sample_parser :: parser where
  "sample_parser src =
     (if take 2 src = ''$['' \<and> CHR ''('' \<notin> set src
      then Inr (Module [Stmt 1 0 (Expr (Call (Name ''__xonsh_subproc__'') [Str src] []))])
      else Inl SyntaxError)"

text \<open>
  How the transformer may differ after a part of the walk: the same lines, the same
  number of frames, and every frame at least what it was.
\<close>

definition frames_grow :: "transformer \<Rightarrow> transformer \<Rightarrow> bool" where
  "frames_grow s s' \<longleftrightarrow>
     lines s' = lines s \<and> length (contexts s') = length (contexts s)
     \<and> (\<forall>i < length (contexts s). contexts s ! i \<subseteq> contexts s' ! i)"

section \<open>Auxiliary facts\<close>

lemma inscope_loop_iff: "inscope_loop lname cs \<longleftrightarrow> (\<exists>ctx \<in> set cs. member_of lname ctx)"
  by (induction cs) auto

lemma getitem_0: "getitem xs 0 = (case xs of [] \<Rightarrow> Inl IndexError | x # _ \<Rightarrow> Inr x)"
  by (cases xs) (simp_all add: getitem_def)

lemma bind_Inr:
  "(case x of Inl e \<Rightarrow> Inl e | Inr r \<Rightarrow> f r) = Inr y \<longleftrightarrow> (\<exists>r. x = Inr r \<and> f r = Inr y)"
  by (cases x) auto

lemma sample_parser_first_is_Expr: "first_is_Expr sample_parser"
  by (auto simp: first_is_Expr_def sample_parser_def split: if_splits)

text \<open>The definitions that a run of the walk on a concrete tree unfolds.\<close>

lemmas walk_defs = ctxvisit_def splitlines_def is_linebreak_def visit_Expr_def getitem_def
  except_SyntaxError_def member_of_def global_update_def sample_parser_def sample_subproc_line_def
  ctxadd_def ctxupdate_def ctxremove_def bind_target_def bind_alias_def bind_withitem_def
  unbind_target_def bind_handler_def push_frame_def pop_frame_def Let_def

section \<open>The leftmost name\<close>

text \<open>
  Claim C3. \<open>leftmostname\<close> is a function of the node alone: it returns a value and
  changes nothing. For a \<open>Name\<close> it returns the identifier; for a \<open>BinOp\<close> and a
  \<open>Compare\<close> the leftmost name of the left operand; for an \<open>Attribute\<close>, a
  \<open>Subscript\<close>, a \<open>Starred\<close> and an expression statement the leftmost name of the
  value; for a \<open>Call\<close> the leftmost name of the called expression; for every other
  expression, every other statement, a handler and a module it returns \<open>None\<close>.
\<close>

theorem leftmostname_by_variant:
  "leftmostname (ExprNode (Name nm)) = Some nm
   \<and> leftmostname (ExprNode (BinOp left opr right)) = leftmostname (ExprNode left)
   \<and> leftmostname (ExprNode (Compare left ops comparators)) = leftmostname (ExprNode left)
   \<and> leftmostname (ExprNode (Attribute v attr)) = leftmostname (ExprNode v)
   \<and> leftmostname (ExprNode (Subscript v slice)) = leftmostname (ExprNode v)
   \<and> leftmostname (ExprNode (Starred v)) = leftmostname (ExprNode v)
   \<and> leftmostname (StmtNode (Stmt l c (Expr v))) = leftmostname (ExprNode v)
   \<and> leftmostname (ExprNode (Call func cargs keywords)) = leftmostname (ExprNode func)
   \<and> leftmostname (ExprNode (Tuple elts)) = None
   \<and> leftmostname (ExprNode (List elts)) = None
   \<and> leftmostname (ExprNode (Num n)) = None
   \<and> leftmostname (ExprNode (Str s)) = None
   \<and> leftmostname (ExprNode (UnaryOp uop operand)) = None
   \<and> leftmostname (ExprNode (OtherExpr cls children)) = None
   \<and> leftmostname (StmtNode (Stmt l c d)) =
        (case d of Expr w \<Rightarrow> leftmostname (ExprNode w) | _ \<Rightarrow> None)
   \<and> leftmostname (HandlerNode h) = None
   \<and> leftmostname (ModNode m) = None"
  by (cases d) simp_all

section \<open>Expression statements\<close>

text \<open>
  Claim C2. An expression statement whose leftmost name is in no frame of the stack
  (no leftmost name at all included), standing on a line of the source whose
  converted text the parser accepts with a module that has a first statement, is
  replaced by that first statement carrying the line number and the column offset of
  the original statement; the transformer is left as it was.
\<close>

theorem visit_Expr_reparse:
  assumes unbound: "\<forall>ident. leftmostname (ExprNode v) = Some ident \<longrightarrow>
                      (\<forall>ctx \<in> set (contexts self). ident \<notin> ctx)"
    and line: "1 \<le> l" "l \<le> int (length (lines self))"
    and parsed: "parse (subproc_line (lines self ! nat (l - 1))) = Inr (Module (first # others))"
  shows "visit subproc_line parse (Stmt l c (Expr v)) self = Inr (Stmt l c (desc first), self)"
proof -
  have "\<not> inscope_loop (leftmostname (StmtNode (Stmt l c (Expr v)))) (rev (contexts self))"
    using unbound by (auto simp: inscope_loop_iff member_of_def split: option.splits)
  moreover have "getitem (lines self) (l - 1) = Inr (lines self ! nat (l - 1))"
    using line by (simp add: getitem_def)
  ultimately show ?thesis
    using parsed by (simp add: visit_Expr_def except_SyntaxError_def getitem_def Let_def)
qed

theorem visit_Expr_reparse_witness:
  "visit sample_subproc_line sample_parser (Stmt 3 0 (Expr (Name ''bar'')))
     \<lparr>lines = [''ls = 1'', ''ls'', ''bar''], contexts = [{''ls''}, {}]\<rparr>
   = Inr (Stmt 3 0 (Expr (Call (Name ''__xonsh_subproc__'') [Str ''$[bar]''] [])),
          \<lparr>lines = [''ls = 1'', ''ls'', ''bar''], contexts = [{''ls''}, {}]\<rparr>)"
proof -
  let ?self = "\<lparr>lines = [''ls = 1'', ''ls'', ''bar''], contexts = [{''ls''}, {}]\<rparr>"
  let ?first = "Stmt 1 0 (Expr (Call (Name ''__xonsh_subproc__'') [Str ''$[bar]''] []))"
  have h1: "\<forall>ident. leftmostname (ExprNode (Name ''bar'')) = Some ident \<longrightarrow>
              (\<forall>ctx \<in> set (contexts ?self). ident \<notin> ctx)"
    by simp
  have h2: "(1::int) \<le> 3" by simp
  have h3: "(3::int) \<le> int (length (lines ?self))" by simp
  have h4: "sample_parser (sample_subproc_line (lines ?self ! nat (3 - 1))) = Inr (Module (?first # []))"
    by (simp add: sample_parser_def sample_subproc_line_def)
  from visit_Expr_reparse [where parse = sample_parser and subproc_line = sample_subproc_line
      and self = ?self and c = 0, OF h1 h2 h3 h4]
  show ?thesis by simp
qed

text \<open>
  The lookup itself: an expression statement whose leftmost name is in some frame of
  the stack is returned as it is, and the parser is not consulted.
\<close>

lemma visit_Expr_bound:
  assumes "leftmostname (ExprNode v) = Some ident" and "ctx \<in> set (contexts self)"
    and "ident \<in> ctx"
  shows "visit sl p (Stmt l c (Expr v)) self = Inr (Stmt l c (Expr v), self)"
proof -
  have "inscope_loop (leftmostname (StmtNode (Stmt l c (Expr v)))) (rev (contexts self))"
    using assms by (auto simp: inscope_loop_iff member_of_def)
  then show ?thesis by (simp add: visit_Expr_def)
qed

section \<open>Statements that bind or unbind names\<close>

text \<open>
  Every method that binds a name does so through \<^verbatim>\<open>self.ctxadd\<close> or
  \<^verbatim>\<open>self.ctxupdate\<close>, and \<^verbatim>\<open>visit_Delete\<close> unbinds through \<^verbatim>\<open>self.ctxremove\<close>. Each
  of these calls raises \<^verbatim>\<open>TypeError\<close>, so the visit of a statement that reaches one
  ends there: a function or class definition and a \<^verbatim>\<open>for\<close> loop always, an assignment
  as soon as it has a target, an import as soon as it has a name, a \<^verbatim>\<open>with\<close> whose
  first item has an \<^verbatim>\<open>as\<close> target, a \<^verbatim>\<open>del\<close> whose first target is a name, a
  \<^verbatim>\<open>try\<close> whose first handler has a name.
\<close>

lemma visit_FunctionDef_raises:
  "visit sl p (Stmt l c (FunctionDef fname params bdy decorators returns)) self = Inl TypeError"
  by (simp add: ctxadd_def)

lemma visit_ClassDef_raises:
  "visit sl p (Stmt l c (ClassDef cname bases bdy decorators)) self = Inl TypeError"
  by (simp add: ctxadd_def)

lemma bind_target_raises: "bind_target targ self = Inl TypeError"
  by (cases targ) (simp_all add: bind_target_def ctxadd_def ctxupdate_def)

lemma visit_For_raises:
  "visit sl p (Stmt l c (For targ iter bdy orelse)) self = Inl TypeError"
  by (simp add: bind_target_raises)

lemma visit_Assign_raises:
  "visit sl p (Stmt l c (Assign (targ # targets) v)) self = Inl TypeError"
  by (simp add: bind_target_raises)

lemma visit_Import_raises:
  "visit sl p (Stmt l c (Import (a # names))) self = Inl TypeError"
  by (simp add: bind_alias_def ctxadd_def split: option.splits)

lemma visit_ImportFrom_raises:
  "visit sl p (Stmt l c (ImportFrom modname (a # names) level)) self = Inl TypeError"
  by (simp add: bind_alias_def ctxadd_def split: option.splits)

lemma visit_With_raises:
  "visit sl p (Stmt l c (With (Withitem ce (Some target) # items) bdy)) self = Inl TypeError"
  by (simp add: bind_withitem_def ctxadd_def)

lemma visit_Delete_Name_raises:
  "visit sl p (Stmt l c (Delete (Name ident # targets))) self = Inl TypeError"
  by (simp add: unbind_target_def ctxremove_def)

lemma visit_Try_raises:
  "visit sl p (Stmt l c (Try bdy (ExceptHandler htype (Some ident) hbody # handlers)
       orelse finalbody)) self = Inl TypeError"
  by (simp add: bind_handler_def ctxadd_def)

text \<open>
  Claim C1. The claim says that an expression statement naming an identifier bound
  earlier by an assignment (or an import, a loop, a \<^verbatim>\<open>with\<close>, a definition) is
  returned unchanged. On the source \<^verbatim>\<open>foo = 1\<close>, \<^verbatim>\<open>foo\<close>, \<^verbatim>\<open>bar\<close> with no initial binding
  the pass, with any collaborators, raises \<^verbatim>\<open>TypeError\<close> at the assignment and
  returns no tree at all.
\<close>

theorem ctxvisit_assignment_then_name:
  "ctxvisit sl p
     (Module [Stmt 1 0 (Assign [Name ''foo''] (Num 1)), Stmt 2 0 (Expr (Name ''foo'')),
              Stmt 3 0 (Expr (Name ''bar''))])
     ''foo = 1\<newline>foo\<newline>bar'' Map.empty
   = Inl TypeError"
  by (simp add: walk_defs)

text \<open>
  Claim C4. The claim says that a name bound only inside a function body is unbound
  for a sibling statement after the definition, which is then reparsed. On the source
  \<^verbatim>\<open>def f():\<close>, \<^verbatim>\<open>x = 1\<close>, \<^verbatim>\<open>x\<close> in the body, then \<^verbatim>\<open>x\<close>, the pass raises
  \<^verbatim>\<open>TypeError\<close> when it binds the function's name: no frame is pushed or popped and
  the sibling statement is never visited.
\<close>

theorem ctxvisit_function_then_sibling:
  "ctxvisit sl p
     (Module [Stmt 1 0 (FunctionDef ''f'' (Arguments [] [])
                 [Stmt 2 4 (Assign [Name ''x''] (Num 1)), Stmt 3 4 (Expr (Name ''x''))] [] None),
              Stmt 4 0 (Expr (Name ''x''))])
     ''def f():\<newline>    x = 1\<newline>    x\<newline>x'' Map.empty
   = Inl TypeError"
  by (simp add: walk_defs)

text \<open>
  Claim C7. The claim says that deleting a name bound in no frame is a no-op that
  raises nothing. On the source \<^verbatim>\<open>del x\<close>, \<^verbatim>\<open>x\<close> with no initial binding the pass
  raises \<^verbatim>\<open>TypeError\<close> at the deletion; a deletion whose targets are no plain names,
  here a subscript, is passed over and the walk goes on.
\<close>

theorem ctxvisit_delete_unbound_name:
  "ctxvisit sl p
     (Module [Stmt 1 0 (Delete [Name ''x'']), Stmt 2 0 (Expr (Name ''x''))])
     ''del x\<newline>x'' Map.empty
   = Inl TypeError
   \<and> ctxvisit sl p
     (Module [Stmt 1 0 (Delete [Subscript (Name ''a'') (Num 0)])])
     ''del a[0]'' Map.empty
   = Inr (Module [Stmt 1 0 (Delete [Subscript (Name ''a'') (Num 0)])])"
  by (simp add: walk_defs)

text \<open>
  Claim C8. The claim says that an assignment binds the leftmost name of each target
  in the innermost frame. On the sources \<^verbatim>\<open>x = 1\<close> and \<^verbatim>\<open>a, b = 1, 2\<close> the pass raises
  \<^verbatim>\<open>TypeError\<close> at the first target, a plain name in the one and a tuple in the
  other, and binds nothing.
\<close>

theorem ctxvisit_assignment_targets:
  "ctxvisit sl p (Module [Stmt 1 0 (Assign [Name ''x''] (Num 1))]) ''x = 1'' Map.empty
   = Inl TypeError
   \<and> ctxvisit sl p
     (Module [Stmt 1 0 (Assign [Tuple [Name ''a'', Name ''b'']] (Tuple [Num 1, Num 2]))])
     ''a, b = 1, 2'' Map.empty
   = Inl TypeError"
  by (simp add: walk_defs)

text \<open>
  Claim C10. The claim says that an expression statement in a function body whose
  leftmost name is a parameter of the function is unbound and reparsed. On the source
  \<^verbatim>\<open>def f(a):\<close> with the body \<^verbatim>\<open>a\<close> the pass raises \<^verbatim>\<open>TypeError\<close> when it binds the
  function's name, before the body is visited: no reparse is attempted.
\<close>

theorem ctxvisit_function_parameter:
  "ctxvisit sl p
     (Module [Stmt 1 0 (FunctionDef ''f'' (Arguments [''a''] [])
                 [Stmt 2 4 (Expr (Name ''a''))] [] None)])
     ''def f(a):\<newline>    a'' Map.empty
   = Inl TypeError"
  by (simp add: walk_defs)

section \<open>What the walk preserves\<close>

text \<open>
  The binding loops either raise or leave the transformer as it is, and a visit of
  an expression statement never changes it.
\<close>

lemma for_each_same:
  assumes "\<And>x s s'. f x s = Inr s' \<Longrightarrow> s' = s"
  shows "for_each f xs s = Inr s' \<Longrightarrow> s' = s"
proof (induction xs arbitrary: s)
  case Nil
  then show ?case by simp
next
  case (Cons x xs)
  then show ?case using assms by (auto simp: bind_Inr)
qed

lemma bind_withitem_same: "bind_withitem item s = Inr s' \<Longrightarrow> s' = s"
  by (auto simp: bind_withitem_def ctxadd_def split: option.splits)

lemma unbind_target_same: "unbind_target targ s = Inr s' \<Longrightarrow> s' = s"
  by (cases targ) (auto simp: unbind_target_def ctxremove_def)

lemma bind_handler_same: "bind_handler h s = Inr s' \<Longrightarrow> s' = s"
  by (auto simp: bind_handler_def ctxadd_def split: option.splits)

lemma bind_alias_same: "bind_alias a s = Inr s' \<Longrightarrow> s' = s"
  by (auto simp: bind_alias_def ctxadd_def split: option.splits)

lemma frames_grow_refl: "frames_grow s s"
  by (simp add: frames_grow_def)

lemma frames_grow_trans: "frames_grow a b \<Longrightarrow> frames_grow b c \<Longrightarrow> frames_grow a c"
  unfolding frames_grow_def by (metis subset_trans)

lemma global_update_grows: "global_update names s = Inr s' \<Longrightarrow> frames_grow s s'"
  by (auto simp: global_update_def frames_grow_def getitem_def nth_list_update split: if_splits)

lemma visit_Expr_same: "visit_Expr sl p node s = Inr (node', s') \<Longrightarrow> s' = s"
  by (auto simp: visit_Expr_def Let_def bind_Inr split: if_splits)

lemma for_each_bind_target_same: "for_each bind_target targets s = Inr s' \<Longrightarrow> s' = s"
  by (cases targets) (simp_all add: bind_target_raises)

lemma for_each_bind_alias_same: "for_each bind_alias names s = Inr s' \<Longrightarrow> s' = s"
  by (rule for_each_same [where f = bind_alias and xs = names]) (auto dest: bind_alias_same)

lemma for_each_bind_withitem_same: "for_each bind_withitem items s = Inr s' \<Longrightarrow> s' = s"
  by (rule for_each_same [where f = bind_withitem and xs = items]) (auto dest: bind_withitem_same)

lemma for_each_unbind_target_same: "for_each unbind_target targets s = Inr s' \<Longrightarrow> s' = s"
  by (rule for_each_same [where f = unbind_target and xs = targets]) (auto dest: unbind_target_same)

lemma for_each_bind_handler_same: "for_each bind_handler handlers s = Inr s' \<Longrightarrow> s' = s"
  by (rule for_each_same [where f = bind_handler and xs = handlers]) (auto dest: bind_handler_same)

text \<open>
  A part of the walk that returns has only added names to frames: the single change
  of the stack on a returning path is the update of frame 1 by \<^verbatim>\<open>visit_Global\<close>.
\<close>

lemma walk_frames_grow:
  shows "visit sl p node self = Inr (node', self') \<Longrightarrow> frames_grow self self'"
    and "generic_visit sl p node self = Inr (node', self') \<Longrightarrow> frames_grow self self'"
    and "visit_stmts sl p ns self = Inr (ns', self') \<Longrightarrow> frames_grow self self'"
    and "visit_handlers sl p hs self = Inr (hs', self') \<Longrightarrow> frames_grow self self'"
proof (induction sl p node self and sl p node self and sl p ns self and sl p hs self
       arbitrary: node' self' and node' self' and ns' self' and hs' self'
       rule: visit_generic_visit_visit_stmts_visit_handlers.induct)
  case (1 sl p l c v self)
  then show ?case using visit_Expr_same by (fastforce simp: frames_grow_refl)
next
  case (5 sl p l c items bdy self)
  from "5.prems" obtain s1 where
    a: "for_each bind_withitem items self = Inr s1" and
    b: "generic_visit sl p (Stmt l c (With items bdy)) s1 = Inr (node', self')"
    by (auto simp: bind_Inr simp del: generic_visit.simps)
  from "5.IH" [OF a b] for_each_bind_withitem_same [OF a] show ?case by simp
next
  case (9 sl p l c targets self)
  from "9.prems" obtain s1 where
    a: "for_each unbind_target targets self = Inr s1" and
    b: "generic_visit sl p (Stmt l c (Delete targets)) s1 = Inr (node', self')"
    by (auto simp: bind_Inr simp del: generic_visit.simps)
  from "9.IH" [OF a b] for_each_unbind_target_same [OF a] show ?case by simp
next
  case (10 sl p l c bdy handlers orelse finalbody self)
  from "10.prems" obtain s1 where
    a: "for_each bind_handler handlers self = Inr s1" and
    b: "generic_visit sl p (Stmt l c (Try bdy handlers orelse finalbody)) s1 = Inr (node', self')"
    by (auto simp: bind_Inr simp del: generic_visit.simps)
  from "10.IH" [OF a b] for_each_bind_handler_same [OF a] show ?case by simp
next
  case (11 sl p l c names self)
  from "11.prems" obtain s1 where
    a: "global_update names self = Inr s1" and
    b: "generic_visit sl p (Stmt l c (Global names)) s1 = Inr (node', self')"
    by (auto simp: bind_Inr simp del: generic_visit.simps)
  from b have "self' = s1" by simp
  with global_update_grows [OF a] show ?case by simp
next
  case (23 sl p l c targ iter bdy orelse self)
  from "23.prems" obtain bdy' s1 orelse' where
    a: "visit_stmts sl p bdy self = Inr (bdy', s1)" and
    b: "visit_stmts sl p orelse s1 = Inr (orelse', self')"
    by (auto simp: bind_Inr)
  from "23.IH"(1) [OF a] "23.IH"(2) [OF a refl b] show ?case
    by (rule frames_grow_trans)
next
  case (26 sl p l c bdy handlers orelse finalbody self)
  from "26.prems" obtain bdy' s1 handlers' s2 orelse' s3 finalbody' where
    a: "visit_stmts sl p bdy self = Inr (bdy', s1)" and
    b: "visit_handlers sl p handlers s1 = Inr (handlers', s2)" and
    c: "visit_stmts sl p orelse s2 = Inr (orelse', s3)" and
    d: "visit_stmts sl p finalbody s3 = Inr (finalbody', self')"
    by (auto simp: bind_Inr)
  from "26.IH"(1) [OF a] "26.IH"(2) [OF a refl b]
    "26.IH"(3) [OF a refl b refl c] "26.IH"(4) [OF a refl b refl c refl d]
  show ?case by (blast intro: frames_grow_trans)
next
  case (27 sl p l c test bdy orelse self)
  from "27.prems" obtain bdy' s1 orelse' where
    a: "visit_stmts sl p bdy self = Inr (bdy', s1)" and
    b: "visit_stmts sl p orelse s1 = Inr (orelse', self')"
    by (auto simp: bind_Inr)
  from "27.IH"(1) [OF a] "27.IH"(2) [OF a refl b] show ?case
    by (rule frames_grow_trans)
next
  case (28 sl p l c test bdy orelse self)
  from "28.prems" obtain bdy' s1 orelse' where
    a: "visit_stmts sl p bdy self = Inr (bdy', s1)" and
    b: "visit_stmts sl p orelse s1 = Inr (orelse', self')"
    by (auto simp: bind_Inr)
  from "28.IH"(1) [OF a] "28.IH"(2) [OF a refl b] show ?case
    by (rule frames_grow_trans)
next
  case (31 sl p node rest self)
  from "31.prems" obtain n1 s1 rest' where
    a: "visit sl p node self = Inr (n1, s1)" and
    b: "visit_stmts sl p rest s1 = Inr (rest', self')"
    by (auto simp: bind_Inr)
  from "31.IH"(1) [OF a] "31.IH"(2) [OF a refl b] show ?case
    by (rule frames_grow_trans)
next
  case (33 sl p htype hname hbody rest self)
  from "33.prems" obtain hbody' s1 rest' where
    a: "visit_stmts sl p hbody self = Inr (hbody', s1)" and
    b: "visit_handlers sl p rest s1 = Inr (rest', self')"
    by (auto simp: bind_Inr)
  from "33.IH"(1) [OF a] "33.IH"(2) [OF a refl b] show ?case
    by (rule frames_grow_trans)
qed (auto simp: bind_Inr ctxadd_def bind_target_raises frames_grow_refl
       dest: for_each_bind_target_same for_each_bind_alias_same)


text \<open>
  Hence a name that the lookup finds before a part of the walk is still found by it
  afterwards: in particular a name declared \<^verbatim>\<open>global\<close> stays bound for every
  statement visited later.
\<close>

lemma walk_keeps_bound:
  assumes "visit_stmts sl p ns self = Inr (ns', self')"
    and "inscope_loop lname (rev (contexts self))"
  shows "inscope_loop lname (rev (contexts self'))"
proof -
  from assms(2) obtain i where i: "i < length (contexts self)" "member_of lname (contexts self ! i)"
    by (auto simp: inscope_loop_iff in_set_conv_nth)
  from walk_frames_grow(3) [OF assms(1)] i
  have "i < length (contexts self')" "member_of lname (contexts self' ! i)"
    by (auto simp: frames_grow_def member_of_def split: option.splits)
  then show ?thesis
    unfolding inscope_loop_iff set_rev using nth_mem by blast
qed

text \<open>
  No syntax error leaves the walk: the parser is its only source, and
  \<^verbatim>\<open>visit_Expr\<close> catches it.
\<close>

lemma bind_Inl:
  "(case x of Inl e \<Rightarrow> Inl e | Inr r \<Rightarrow> f r) = Inl e' \<longleftrightarrow>
     x = Inl e' \<or> (\<exists>r. x = Inr r \<and> f r = Inl e')"
  by (cases x) auto

lemma for_each_not_SyntaxError:
  assumes "\<And>x s. f x s \<noteq> Inl SyntaxError"
  shows "for_each f xs s \<noteq> Inl SyntaxError"
  using assms by (induction xs arbitrary: s) (auto simp: bind_Inl)

lemma visit_Expr_not_SyntaxError: "visit_Expr sl p node s \<noteq> Inl SyntaxError"
  by (auto simp: visit_Expr_def Let_def bind_Inl getitem_def except_SyntaxError_def
      split: if_splits sum.splits)

lemma walk_not_SyntaxError:
  shows "visit sl p node self \<noteq> Inl SyntaxError"
    and "generic_visit sl p node self \<noteq> Inl SyntaxError"
    and "visit_stmts sl p ns self \<noteq> Inl SyntaxError"
    and "visit_handlers sl p hs self \<noteq> Inl SyntaxError"
proof (induction sl p node self and sl p node self and sl p ns self and sl p hs self
       rule: visit_generic_visit_visit_stmts_visit_handlers.induct)
  case (1 sl p l c v self)
  then show ?case by (simp add: visit_Expr_not_SyntaxError)
qed (auto simp: bind_Inl ctxadd_def bind_target_raises global_update_def getitem_def
      bind_alias_def bind_withitem_def unbind_target_def bind_handler_def ctxremove_def
      pop_frame_def
      dest!: for_each_not_SyntaxError [THEN notE, rotated]
      split: if_splits option.splits expr.splits)


lemma ctxvisit_not_SyntaxError: "ctxvisit sl p tree input ctx \<noteq> Inl SyntaxError"
  using walk_not_SyntaxError(3) [of sl p "body tree"]
  by (auto simp: ctxvisit_def Let_def bind_Inl)

section \<open>Global declarations\<close>

text \<open>
  \<^verbatim>\<open>visit_Global\<close> (lines 170 to 173) writes to \<^verbatim>\<open>self.contexts[1]\<close> itself, not through
  \<^verbatim>\<open>ctxadd\<close>. On a stack of at least two frames it adds the declared names to the frame
  at index 1 and changes nothing else; each name is then found by the lookup in every
  stack that keeps the two bottom frames, and is still found after any further
  statements have been visited.
\<close>

lemma visit_Global_frame_1:
  assumes stack: "contexts self = root # glob # inner"
  shows "visit sl p (Stmt l c (Global names)) self =
           Inr (Stmt l c (Global names), self\<lparr>contexts := root # (glob \<union> set names) # inner\<rparr>)
         \<and> (\<forall>ident \<in> set names. \<forall>inner'.
               inscope_loop (Some ident) (rev (root # (glob \<union> set names) # inner')))
         \<and> (\<forall>ident \<in> set names.
               visit_stmts sl p ns (self\<lparr>contexts := root # (glob \<union> set names) # inner\<rparr>)
                 = Inr (ns', self')
               \<longrightarrow> inscope_loop (Some ident) (rev (contexts self')))"
proof -
  have found: "inscope_loop (Some ident) (rev (root # (glob \<union> set names) # inner'))"
    if "ident \<in> set names" for ident inner'
    using that by (auto simp: inscope_loop_iff member_of_def)
  have later: "inscope_loop (Some ident) (rev (contexts self'))"
    if "ident \<in> set names"
      and "visit_stmts sl p ns (self\<lparr>contexts := root # (glob \<union> set names) # inner\<rparr>)
             = Inr (ns', self')"
    for ident
    using walk_keeps_bound [OF that(2)] found [OF that(1), of inner] by simp
  have "visit sl p (Stmt l c (Global names)) self =
          Inr (Stmt l c (Global names), self\<lparr>contexts := root # (glob \<union> set names) # inner\<rparr>)"
    using stack by (simp add: global_update_def getitem_def)
  with found later show ?thesis by blast
qed

text \<open>
  Claim C5. The claim says that a \<^verbatim>\<open>global\<close> declaration inside a nested frame adds
  its names to the frame at index 1, so that they stay bound after the nested frame
  has been popped. The only frames above index 1 are those pushed for a function or
  class body, and the pass raises \<^verbatim>\<open>TypeError\<close> when it binds the name of the
  function or class, before the push: on the sources \<^verbatim>\<open>def f():\<close> and \<^verbatim>\<open>class C:\<close>
  with the body \<^verbatim>\<open>global x\<close>, followed by \<^verbatim>\<open>x\<close>, the declaration is never visited,
  nothing is added to any frame and no tree is returned.
\<close>

theorem ctxvisit_global_in_nested_frame:
  "ctxvisit sl p
     (Module [Stmt 1 0 (FunctionDef ''f'' (Arguments [] [])
                 [Stmt 2 4 (Global [''x''])] [] None),
              Stmt 3 0 (Expr (Name ''x''))])
     ''def f():\<newline>    global x\<newline>x'' Map.empty
   = Inl TypeError
   \<and> ctxvisit sl p
     (Module [Stmt 1 0 (ClassDef ''C'' [] [Stmt 2 4 (Global [''x''])] []),
              Stmt 3 0 (Expr (Name ''x''))])
     ''class C:\<newline>    global x\<newline>x'' Map.empty
   = Inl TypeError"
  by (simp add: walk_defs)

section \<open>Syntax errors of the parser\<close>

text \<open>
  Claim C6. When the line of an expression statement can be fetched and the parser
  raises a syntax error on its converted text, the visit returns the original
  statement and the unchanged transformer: a result, not an exception. And no run of
  the pass, on any tree, ends in a syntax error: none reaches the caller.
\<close>

theorem visit_Expr_syntax_error:
  assumes line: "getitem (lines self) (l - 1) = Inr line"
    and failed: "parse (subproc_line line) = Inl SyntaxError"
  shows "visit subproc_line parse (Stmt l c (Expr v)) self = Inr (Stmt l c (Expr v), self)
         \<and> ctxvisit subproc_line parse tree input ctx \<noteq> Inl SyntaxError"
  using assms ctxvisit_not_SyntaxError [of subproc_line parse tree input ctx]
  by (simp add: visit_Expr_def except_SyntaxError_def Let_def)

theorem visit_Expr_syntax_error_witness:
  "visit sample_subproc_line sample_parser (Stmt 1 0 (Expr (Call (Name ''f'') [Num 1] [])))
     \<lparr>lines = [''f(1)''], contexts = [{}, {}]\<rparr>
   = Inr (Stmt 1 0 (Expr (Call (Name ''f'') [Num 1] [])),
          \<lparr>lines = [''f(1)''], contexts = [{}, {}]\<rparr>)
   \<and> ctxvisit sample_subproc_line sample_parser
         (Module [Stmt 1 0 (Expr (Call (Name ''f'') [Num 1] []))]) ''f(1)''
         (Map.empty :: py_ident \<rightharpoonup> unit)
       \<noteq> Inl SyntaxError"
proof -
  let ?self = "\<lparr>lines = [''f(1)''], contexts = [{}, {}] :: py_ident set list\<rparr>"
  have h1: "getitem (lines ?self) (1 - 1) = Inr ''f(1)''"
    by (simp add: getitem_def)
  have h2: "sample_parser (sample_subproc_line ''f(1)'') = Inl SyntaxError"
    by (simp add: sample_parser_def sample_subproc_line_def)
  from visit_Expr_syntax_error [where parse = sample_parser
      and subproc_line = sample_subproc_line and self = ?self, OF h1 h2]
  show ?thesis by simp
qed

section \<open>Running the pass twice\<close>

text \<open>
  What a successful visit of an expression statement returns, under the parser's
  contract: the transformer unchanged and an expression statement at the same
  position, which a second visit from the same transformer returns again.
\<close>

lemma visit_Expr_result:
  assumes "first_is_Expr p"
    and "visit_Expr sl p (Stmt l c (Expr v)) self = Inr (node', self')"
  shows "self' = self \<and> (\<exists>v'. node' = Stmt l c (Expr v'))
         \<and> visit_Expr sl p node' self = Inr (node', self)"
proof (cases "inscope_loop (leftmostname (ExprNode v)) (rev (contexts self))")
  case True
  with assms(2) show ?thesis by (auto simp: visit_Expr_def)
next
  case False
  then obtain line where line: "getitem (lines self) (l - 1) = Inr line"
    using assms(2) by (auto simp: visit_Expr_def Let_def split: sum.splits)
  show ?thesis
  proof (cases "p (sl line)")
    case (Inl err)
    with False line assms(2) show ?thesis
      by (auto simp: visit_Expr_def Let_def except_SyntaxError_def split: if_splits)
  next
    case (Inr tree)
    then obtain first rest where tree: "tree = Module (first # rest)"
      using False line assms(2)
      by (cases tree; cases "body tree")
         (auto simp: visit_Expr_def Let_def except_SyntaxError_def getitem_0)
    then obtain w where w: "desc first = Expr w"
      using assms(1) Inr unfolding first_is_Expr_def by blast
    have res: "node' = Stmt l c (Expr w)" "self' = self"
      using False line assms(2) Inr tree w
      by (auto simp: visit_Expr_def Let_def except_SyntaxError_def getitem_0)
    show ?thesis
      using line Inr tree w res
      by (auto simp: visit_Expr_def Let_def except_SyntaxError_def getitem_0)
  qed
qed

text \<open>
  The handlers of a \<^verbatim>\<open>try\<close> keep their names through the walk, and the binding loop
  of \<^verbatim>\<open>visit_Try\<close> reads nothing else of them.
\<close>

lemma for_each_bind_handler_names:
  "map handler_name hs = map handler_name hs' \<Longrightarrow>
     for_each bind_handler hs s = for_each bind_handler hs' s"
proof (induction hs arbitrary: hs' s)
  case Nil
  then show ?case by simp
next
  case (Cons h hs)
  then obtain h' rest where hs': "hs' = h' # rest" by (cases hs') auto
  with Cons.prems have "handler_name h = handler_name h'" "map handler_name hs = map handler_name rest"
    by simp_all
  with Cons.IH hs' show ?case by (simp add: bind_handler_def split: sum.splits)
qed

lemma visit_handlers_names:
  "visit_handlers sl p hs s = Inr (hs', s') \<Longrightarrow> map handler_name hs' = map handler_name hs"
proof (induction hs arbitrary: hs' s s')
  case Nil
  then show ?case by simp
next
  case (Cons h hs)
  obtain ht hn hb where h: "h = ExceptHandler ht hn hb" by (cases h)
  from Cons.prems obtain hb' s1 rest' where
    "visit_handlers sl p hs s1 = Inr (rest', s')" "hs' = ExceptHandler ht hn hb' # rest'"
    unfolding h by (auto simp: bind_Inr)
  with Cons.IH show ?case by (simp add: h)
qed

text \<open>
  A walk that returns, started again on its own result from the same transformer,
  returns that result and the same final transformer. By induction on the walk.
\<close>

lemma walk_idem:
  shows "first_is_Expr p \<Longrightarrow> visit sl p node self = Inr (node', self') \<Longrightarrow>
           visit sl p node' self = Inr (node', self')"
    and "first_is_Expr p \<Longrightarrow> generic_visit sl p node self = Inr (node', self') \<Longrightarrow>
           generic_visit sl p node' self = Inr (node', self')"
    and "first_is_Expr p \<Longrightarrow> visit_stmts sl p ns self = Inr (ns', self') \<Longrightarrow>
           visit_stmts sl p ns' self = Inr (ns', self')"
    and "first_is_Expr p \<Longrightarrow> visit_handlers sl p hs self = Inr (hs', self') \<Longrightarrow>
           visit_handlers sl p hs' self = Inr (hs', self')"
proof (induction sl p node self and sl p node self and sl p ns self and sl p hs self
       arbitrary: node' self' and node' self' and ns' self' and hs' self'
       rule: visit_generic_visit_visit_stmts_visit_handlers.induct)
  case (1 sl p l c v self)
  then have run: "visit_Expr sl p (Stmt l c (Expr v)) self = Inr (node', self')" by simp
  from visit_Expr_result[OF "1.prems"(1) run] obtain v' where
    "self' = self" "node' = Stmt l c (Expr v')" "visit_Expr sl p node' self = Inr (node', self)"
    by blast
  then show ?case by simp
next
  case (5 sl p l c items bdy self)
  from "5.prems"(2) obtain s1 where
    a: "for_each bind_withitem items self = Inr s1" and
    b: "generic_visit sl p (Stmt l c (With items bdy)) s1 = Inr (node', self')"
    by (auto simp: bind_Inr simp del: generic_visit.simps)
  from b obtain bdy' where n: "node' = Stmt l c (With items bdy')"
    by (auto simp: bind_Inr)
  from "5.IH"[OF a "5.prems"(1) b] a n show ?case
    by (simp del: generic_visit.simps)
next
  case (6 sl p l c targ iter bdy orelse self)
  from "6.prems"(2) obtain s1 where
    a: "bind_target targ self = Inr s1" and
    b: "generic_visit sl p (Stmt l c (For targ iter bdy orelse)) s1 = Inr (node', self')"
    by (auto simp: bind_Inr simp del: generic_visit.simps)
  from b obtain bdy' orelse' where n: "node' = Stmt l c (For targ iter bdy' orelse')"
    by (auto simp: bind_Inr)
  from "6.IH"[OF a "6.prems"(1) b] a n show ?case
    by (simp del: generic_visit.simps)
next
  case (9 sl p l c targets self)
  from "9.prems"(2) obtain s1 where
    a: "for_each unbind_target targets self = Inr s1" and
    b: "generic_visit sl p (Stmt l c (Delete targets)) s1 = Inr (node', self')"
    by (auto simp: bind_Inr simp del: generic_visit.simps)
  from b have n: "node' = Stmt l c (Delete targets)" by simp
  from "9.IH"[OF a "9.prems"(1) b] a n show ?case
    by (simp del: generic_visit.simps)
next
  case (10 sl p l c bdy handlers orelse finalbody self)
  from "10.prems"(2) obtain s1 where
    a: "for_each bind_handler handlers self = Inr s1" and
    b: "generic_visit sl p (Stmt l c (Try bdy handlers orelse finalbody)) s1 = Inr (node', self')"
    by (auto simp: bind_Inr simp del: generic_visit.simps)
  from b obtain bdy' handlers' orelse' finalbody' sa sb where
    n: "node' = Stmt l c (Try bdy' handlers' orelse' finalbody')" and
    h: "visit_handlers sl p handlers sa = Inr (handlers', sb)"
    by (auto simp: bind_Inr)
  have "for_each bind_handler handlers' self = Inr s1"
    using for_each_bind_handler_names[OF visit_handlers_names[OF h]] a by simp
  with "10.IH"[OF a "10.prems"(1) b] n show ?case
    by (simp del: generic_visit.simps)
next
  case (11 sl p l c names self)
  from "11.prems"(2) obtain s1 where
    a: "global_update names self = Inr s1" and
    b: "generic_visit sl p (Stmt l c (Global names)) s1 = Inr (node', self')"
    by (auto simp: bind_Inr simp del: generic_visit.simps)
  from b have n: "node' = Stmt l c (Global names)" by simp
  from "11.IH"[OF a "11.prems"(1) b] a n show ?case
    by (simp del: generic_visit.simps)
next
  case (14 sl p l c test bdy orelse self)
  from "14.prems"(2) have b: "generic_visit sl p (Stmt l c (IfStmt test bdy orelse)) self = Inr (node', self')"
    by (simp del: generic_visit.simps)
  from b obtain bdy' orelse' where n: "node' = Stmt l c (IfStmt test bdy' orelse')"
    by (auto simp: bind_Inr)
  from "14.IH"[OF "14.prems"(1) b] n show ?case
    by (simp del: generic_visit.simps)
next
  case (15 sl p l c test bdy orelse self)
  from "15.prems"(2) have b: "generic_visit sl p (Stmt l c (While test bdy orelse)) self = Inr (node', self')"
    by (simp del: generic_visit.simps)
  from b obtain bdy' orelse' where n: "node' = Stmt l c (While test bdy' orelse')"
    by (auto simp: bind_Inr)
  from "15.IH"[OF "15.prems"(1) b] n show ?case
    by (simp del: generic_visit.simps)
next
  case (22 sl p l c items bdy self)
  from "22.prems"(2) obtain bdy' where
    a: "visit_stmts sl p bdy self = Inr (bdy', self')" and n: "node' = Stmt l c (With items bdy')"
    by (auto simp: bind_Inr)
  from "22.IH"[OF "22.prems"(1) a] n show ?case by simp
next
  case (23 sl p l c targ iter bdy orelse self)
  from "23.prems"(2) obtain bdy' s1 orelse' where
    a: "visit_stmts sl p bdy self = Inr (bdy', s1)" and
    b: "visit_stmts sl p orelse s1 = Inr (orelse', self')" and
    n: "node' = Stmt l c (For targ iter bdy' orelse')"
    by (auto simp: bind_Inr)
  from "23.IH"(1)[OF "23.prems"(1) a] "23.IH"(2)[OF a refl "23.prems"(1) b] n
  show ?case by simp
next
  case (24 sl p l c fname params bdy decorators returns self)
  from "24.prems"(2) obtain bdy' where
    a: "visit_stmts sl p bdy self = Inr (bdy', self')" and
    n: "node' = Stmt l c (FunctionDef fname params bdy' decorators returns)"
    by (auto simp: bind_Inr)
  from "24.IH"[OF "24.prems"(1) a] n show ?case by simp
next
  case (25 sl p l c cname bases bdy decorators self)
  from "25.prems"(2) obtain bdy' where
    a: "visit_stmts sl p bdy self = Inr (bdy', self')" and
    n: "node' = Stmt l c (ClassDef cname bases bdy' decorators)"
    by (auto simp: bind_Inr)
  from "25.IH"[OF "25.prems"(1) a] n show ?case by simp
next
  case (26 sl p l c bdy handlers orelse finalbody self)
  from "26.prems"(2) obtain bdy' s1 handlers' s2 orelse' s3 finalbody' where
    a: "visit_stmts sl p bdy self = Inr (bdy', s1)" and
    b: "visit_handlers sl p handlers s1 = Inr (handlers', s2)" and
    c: "visit_stmts sl p orelse s2 = Inr (orelse', s3)" and
    d: "visit_stmts sl p finalbody s3 = Inr (finalbody', self')" and
    n: "node' = Stmt l c (Try bdy' handlers' orelse' finalbody')"
    by (auto simp: bind_Inr)
  from "26.IH"(1)[OF "26.prems"(1) a] "26.IH"(2)[OF a refl "26.prems"(1) b]
    "26.IH"(3)[OF a refl b refl "26.prems"(1) c]
    "26.IH"(4)[OF a refl b refl c refl "26.prems"(1) d] n
  show ?case by simp
next
  case (27 sl p l c test bdy orelse self)
  from "27.prems"(2) obtain bdy' s1 orelse' where
    a: "visit_stmts sl p bdy self = Inr (bdy', s1)" and
    b: "visit_stmts sl p orelse s1 = Inr (orelse', self')" and
    n: "node' = Stmt l c (IfStmt test bdy' orelse')"
    by (auto simp: bind_Inr)
  from "27.IH"(1)[OF "27.prems"(1) a] "27.IH"(2)[OF a refl "27.prems"(1) b] n
  show ?case by simp
next
  case (28 sl p l c test bdy orelse self)
  from "28.prems"(2) obtain bdy' s1 orelse' where
    a: "visit_stmts sl p bdy self = Inr (bdy', s1)" and
    b: "visit_stmts sl p orelse s1 = Inr (orelse', self')" and
    n: "node' = Stmt l c (While test bdy' orelse')"
    by (auto simp: bind_Inr)
  from "28.IH"(1)[OF "28.prems"(1) a] "28.IH"(2)[OF a refl "28.prems"(1) b] n
  show ?case by simp
next
  case (31 sl p node rest self)
  from "31.prems"(2) obtain n1 s1 rest' where
    a: "visit sl p node self = Inr (n1, s1)" and
    b: "visit_stmts sl p rest s1 = Inr (rest', self')" and
    n: "ns' = n1 # rest'"
    by (auto simp: bind_Inr)
  from "31.IH"(1)[OF "31.prems"(1) a] "31.IH"(2)[OF a refl "31.prems"(1) b] n
  show ?case by simp
next
  case (33 sl p htype hname hbody rest self)
  from "33.prems"(2) obtain hbody' s1 rest' where
    a: "visit_stmts sl p hbody self = Inr (hbody', s1)" and
    b: "visit_handlers sl p rest s1 = Inr (rest', self')" and
    n: "hs' = ExceptHandler htype hname hbody' # rest'"
    by (auto simp: bind_Inr)
  from "33.IH"(1)[OF "33.prems"(1) a] "33.IH"(2)[OF a refl "33.prems"(1) b] n
  show ?case by simp
qed (auto simp: bind_Inr ctxadd_def)


text \<open>
  Claim C9. The pass is idempotent: with a parser whose first statement is always an
  expression statement, when a run of the pass on a tree, a source text and initial
  bindings returns a tree, a second run on the returned tree with the same text and
  bindings returns that tree again, unchanged.
\<close>

theorem ctxvisit_idempotent:
  assumes contract: "first_is_Expr p"
    and first_run: "ctxvisit sl p tree input ctx = Inr tree'"
  shows "ctxvisit sl p tree' input ctx = Inr tree'"
proof -
  let ?self = "\<lparr>lines = splitlines input, contexts = [dom ctx, {}]\<rparr>"
  from first_run obtain body' self1 where
    run: "visit_stmts sl p (body tree) ?self = Inr (body', self1)" and t: "tree' = Module body'"
    by (auto simp: ctxvisit_def Let_def bind_Inr)
  from walk_idem(3) [OF contract run] t show ?thesis
    by (simp add: ctxvisit_def)
qed

theorem ctxvisit_idempotent_witness:
  "first_is_Expr sample_parser
   \<and> ctxvisit sample_subproc_line sample_parser
       (Module [Stmt 1 0 (Global [''q'']), Stmt 2 0 (Expr (Name ''bar'')),
                Stmt 3 0 (Expr (Name ''q'')), Stmt 4 0 (Expr (Call (Name ''f'') [Num 1] []))])
       ''global q\<newline>bar\<newline>q\<newline>f(1)'' (Map.empty :: py_ident \<rightharpoonup> unit)
     = Inr (Module [Stmt 1 0 (Global [''q'']),
                Stmt 2 0 (Expr (Call (Name ''__xonsh_subproc__'') [Str ''$[bar]''] [])),
                Stmt 3 0 (Expr (Name ''q'')), Stmt 4 0 (Expr (Call (Name ''f'') [Num 1] []))])
   \<and> ctxvisit sample_subproc_line sample_parser
       (Module [Stmt 1 0 (Global [''q'']),
                Stmt 2 0 (Expr (Call (Name ''__xonsh_subproc__'') [Str ''$[bar]''] [])),
                Stmt 3 0 (Expr (Name ''q'')), Stmt 4 0 (Expr (Call (Name ''f'') [Num 1] []))])
       ''global q\<newline>bar\<newline>q\<newline>f(1)'' (Map.empty :: py_ident \<rightharpoonup> unit)
     = Inr (Module [Stmt 1 0 (Global [''q'']),
                Stmt 2 0 (Expr (Call (Name ''__xonsh_subproc__'') [Str ''$[bar]''] [])),
                Stmt 3 0 (Expr (Name ''q'')), Stmt 4 0 (Expr (Call (Name ''f'') [Num 1] []))])"
proof -
  have first_run:
    "ctxvisit sample_subproc_line sample_parser
       (Module [Stmt 1 0 (Global [''q'']), Stmt 2 0 (Expr (Name ''bar'')),
                Stmt 3 0 (Expr (Name ''q'')), Stmt 4 0 (Expr (Call (Name ''f'') [Num 1] []))])
       ''global q\<newline>bar\<newline>q\<newline>f(1)'' (Map.empty :: py_ident \<rightharpoonup> unit)
     = Inr (Module [Stmt 1 0 (Global [''q'']),
                Stmt 2 0 (Expr (Call (Name ''__xonsh_subproc__'') [Str ''$[bar]''] [])),
                Stmt 3 0 (Expr (Name ''q'')), Stmt 4 0 (Expr (Call (Name ''f'') [Num 1] []))])"
    by (simp add: walk_defs)
  from ctxvisit_idempotent [where p = sample_parser and sl = sample_subproc_line,
      OF sample_parser_first_is_Expr first_run]
  show ?thesis using sample_parser_first_is_Expr first_run by simp
qed

end
